theory Spec2Isabelle
  imports Main
begin

section \<open>Extra Fancy Sokoban: the controller of a3.py\<close>

text \<open>
  The development embeds the controller class \<open>ExtraFancySokoban\<close> of \<open>a3.py\<close>:
  \<open>redraw\<close>, \<open>chosen\<close>, \<open>handle_keypress\<close>, \<open>perform_action\<close>, \<open>save_game_state\<close> and
  \<open>load_game_state\<close>. The modules \<open>model\<close>, \<open>a2_support\<close> and \<open>a3_support\<close> that the file
  imports are not part of the sources; what the controller needs of them is a parameter
  (the marker constants, the operations of the model) or is modelled from the specification
  and marked so.
\<close>

subsection \<open>Python strings\<close>

text \<open>
  A Python \<open>str\<close> is a list of characters; a \<open>char\<close> stands for a code point below 256.
  \<open>NL\<close> is the line feed.
\<close>

definition NL :: char where
  "NL = CHR 0x0A"

text \<open>\<open>str(n)\<close> for an \<open>int\<close>: the decimal digits, with a minus sign below zero.\<close>

definition digit_char :: "nat \<Rightarrow> char" where
  "digit_char d = ''0123456789'' ! d"

fun str_nat :: "nat \<Rightarrow> string" where
  "str_nat n = (if n < 10 then [digit_char n] else str_nat (n div 10) @ [digit_char (n mod 10)])"

declare str_nat.simps [simp del]

definition py_str :: "int \<Rightarrow> string" where
  "py_str i = (if i < 0 then CHR ''-'' # str_nat (nat (- i)) else str_nat (nat i))"

text \<open>
  \<open>str.strip()\<close> with no argument removes the characters for which \<open>str.isspace\<close> holds
  from both ends; below 256 these are the twelve code points listed.
\<close>

definition is_space :: "char \<Rightarrow> bool" where
  "is_space c = (c = CHR 0x09 \<or> c = CHR 0x0A \<or> c = CHR 0x0B \<or> c = CHR 0x0C \<or> c = CHR 0x0D
     \<or> c = CHR 0x1C \<or> c = CHR 0x1D \<or> c = CHR 0x1E \<or> c = CHR 0x1F \<or> c = CHR 0x20
     \<or> c = CHR 0x85 \<or> c = CHR 0xA0)"

definition strip :: "string \<Rightarrow> string" where
  "strip s = rev (dropWhile is_space (rev (dropWhile is_space s)))"

text \<open>\<open>s.split(' ')\<close>: the pieces between single spaces; always at least one piece.\<close>

fun split_space :: "string \<Rightarrow> string list" where
  "split_space [] = [[]]"
| "split_space (c # cs) =
     (if c = CHR 0x20 then [] # split_space cs
      else (case split_space cs of
              [] \<Rightarrow> [[c]]
            | t # ts \<Rightarrow> (c # t) # ts))"

text \<open>
  \<open>int(s)\<close> for a string, base ten: white space around the number is dropped, one sign is
  allowed, then decimal digits, where single underscores may stand between two digits.
  \<open>None\<close> is the \<open>ValueError\<close> of every other string. White space for \<open>int\<close> is less
  than for \<open>str.strip\<close>: the six of ASCII, and the two space characters above 127, which
  \<open>int\<close> first turns into blanks; the separators \<open>0x1C\<close> to \<open>0x1F\<close> are not dropped and
  make the string invalid. A string with more digits than the interpreter's limit, 4300
  unless it is set otherwise, is refused with \<open>ValueError\<close> as well; the sign, the
  underscores and the white space do not count, leading zeros do.
\<close>

definition int_space :: "char \<Rightarrow> bool" where
  "int_space c = (c = CHR 0x09 \<or> c = CHR 0x0A \<or> c = CHR 0x0B \<or> c = CHR 0x0C \<or> c = CHR 0x0D
     \<or> c = CHR 0x20 \<or> c = CHR 0x85 \<or> c = CHR 0xA0)"

definition max_str_digits :: nat where
  "max_str_digits = 4300"

definition digit_val :: "char \<Rightarrow> nat option" where
  "digit_val c = map_of
     [(CHR ''0'', 0), (CHR ''1'', 1), (CHR ''2'', 2), (CHR ''3'', 3), (CHR ''4'', 4),
      (CHR ''5'', 5), (CHR ''6'', 6), (CHR ''7'', 7), (CHR ''8'', 8), (CHR ''9'', 9)] c"

fun int_digits :: "nat \<Rightarrow> string \<Rightarrow> nat option" where
  "int_digits acc [] = Some acc"
| "int_digits acc [c] =
     (case digit_val c of
        Some d \<Rightarrow> Some (acc * 10 + d)
      | None \<Rightarrow> None)"
| "int_digits acc (c # d # cs) =
     (case digit_val c of
        Some v \<Rightarrow> int_digits (acc * 10 + v) (d # cs)
      | None \<Rightarrow>
          (if c = CHR ''_'' \<and> digit_val d \<noteq> None then int_digits acc (d # cs) else None))"

definition int_unsigned :: "string \<Rightarrow> nat option" where
  "int_unsigned s =
     (case s of
        [] \<Rightarrow> None
      | c # cs \<Rightarrow>
          (if digit_val c = None then None
           else if max_str_digits < length (filter (\<lambda>d. digit_val d \<noteq> None) s) then None
           else int_digits 0 s))"

definition py_int :: "string \<Rightarrow> int option" where
  "py_int s =
     (case rev (dropWhile int_space (rev (dropWhile int_space s))) of
        [] \<Rightarrow> None
      | c # cs \<Rightarrow>
          (if c = CHR ''-'' then map_option (\<lambda>n. - int n) (int_unsigned cs)
           else if c = CHR ''+'' then map_option int (int_unsigned cs)
           else map_option int (int_unsigned (c # cs))))"

text \<open>
  \<open>file.readlines()\<close> on the text of a file: the lines, each with its line feed, the last
  one without when the text does not end in one. The text is the one Python sees after
  the translation of line ends.
\<close>

fun readlines :: "string \<Rightarrow> string list" where
  "readlines [] = []"
| "readlines (c # cs) =
     (if c = NL then [c] # readlines cs
      else (case readlines cs of
              [] \<Rightarrow> [[c]]
            | l # ls \<Rightarrow> (c # l) # ls))"

subsection \<open>What the controller imports\<close>

text \<open>
  The marker constants of \<open>a2_support\<close>. The controller writes them to a text file and
  compares them with single characters and with the results of \<open>get_type\<close>, so they are
  strings; their values are not in the sources and stay parameters.
\<close>

record support =
  PLAYER :: string
  WALL :: string
  CRATE :: string
  COIN :: string
  STRENGTH_POTION :: string
  MOVE_POTION :: string
  FANCY_POTION :: string
  FLOOR :: string
  GOAL :: string

text \<open>
  Modelled from the spec: the class \<open>Tile\<close> of \<open>model.py\<close> is missing. A tile is one of
  wall, floor and goal (section 3); \<open>get_type\<close> gives its marker.
\<close>

datatype tile = Wall | Floor | Goal

fun tile_get_type :: "support \<Rightarrow> tile \<Rightarrow> string" where
  "tile_get_type K Wall = WALL K"
| "tile_get_type K Floor = FLOOR K"
| "tile_get_type K Goal = GOAL K"

text \<open>
  Modelled from the spec: the class \<open>Entity\<close> of \<open>model.py\<close> is missing. An entity is a
  crate with its strength, a coin or one of three potions (section 3); \<open>get_type\<close> gives
  the marker of its kind, and only a crate has a strength.
\<close>

datatype entity = Crate int | Coin | StrengthPotion | MovePotion | FancyPotion

fun get_type :: "support \<Rightarrow> entity \<Rightarrow> string" where
  "get_type K (Crate s) = CRATE K"
| "get_type K Coin = COIN K"
| "get_type K StrengthPotion = STRENGTH_POTION K"
| "get_type K MovePotion = MOVE_POTION K"
| "get_type K FancyPotion = FANCY_POTION K"

fun get_strength :: "entity \<Rightarrow> int option" where
  "get_strength (Crate s) = Some s"
| "get_strength e = None"

text \<open>\<open>str(x)\<close> where \<open>x\<close> is an \<open>int\<close> or \<open>None\<close>.\<close>

fun str_strength :: "int option \<Rightarrow> string" where
  "str_strength (Some s) = py_str s"
| "str_strength None = ''None''"

type_synonym position = "int \<times> int"

text \<open>
  The object held as the maze is a list of rows. A row of the maze built from a level file
  is a list of tiles. \<open>load_game_state\<close> stores a list of another shape: the wall markers
  of the last line read, followed by the list itself (\<open>row_maze.append(row_maze)\<close>). So
  an item of the list is a row of tiles, a string, or the list it is in.
\<close>

datatype row_obj = Tiles "tile list" | Str string | Itself

text \<open>
  Modelled from the spec: the class \<open>SokobanModel\<close> of \<open>model.py\<close> is missing. Its state
  is the maze, the entity registry and the player state (section 3), and the attributes
  that \<open>load_game_state\<close> assigns are the fields of that state (section 9: save and load
  reach into the engine's internal fields). \<open>player_position\<close> is the attribute
  \<open>_player_position\<close>.
\<close>

record engine =
  maze :: "row_obj list"
  entities :: "position \<rightharpoonup> entity"
  player_position :: position
  player_strength :: int
  player_moves_remaining :: int
  player_money :: int

text \<open>
  Modelled from the spec: the operations of \<open>SokobanModel\<close> that the controller calls.
  Each runs to completion and returns (section 5), no exception crosses the boundary
  between the engine and the shell on a gameplay outcome (section 7), and \<open>has_won\<close> is a
  pure predicate (section 4.3). \<open>get_shop_items\<close> is the catalogue, item id and price, in
  the order the dictionary gives them.
\<close>

record ops =
  attempt_move :: "string \<Rightarrow> engine \<Rightarrow> engine"
  has_won :: "engine \<Rightarrow> bool"
  reset :: "engine \<Rightarrow> engine"
  attempt_purchase :: "string \<Rightarrow> engine \<Rightarrow> engine"
  get_shop_items :: "(string \<times> int) list"

subsection \<open>The controller's state\<close>

text \<open>
  Exceptions that the controller's code can raise. \<open>CorruptSaveError\<close> is the error the
  specification names for a malformed save (section 7); no statement of \<open>a3.py\<close> raises it.
\<close>

datatype error =
    IndexError | ValueError | TypeError | AttributeError | UnboundLocalError
  | CorruptSaveError

text \<open>
  What the controller does to its collaborators is kept as a list of events, oldest first:
  every call of a method of the model, every dialog, every call of a method of the view
  (\<open>FancySokobanView.display_game\<close>, \<open>display_stats\<close>, \<open>clear_all\<close>) with the values it is
  given, and the destruction of the root window. The view changes only through these calls.
\<close>

datatype model_call =
    AttemptMove string | HasWon | Reset | AttemptPurchase string
  | GetMaze | GetEntities | GetPlayerPosition
  | GetPlayerMovesRemaining | GetPlayerStrength | GetPlayerMoney | GetPlayer

datatype event =
    Call model_call
  | AskYesNo string
  | ClearAll
  | DisplayGame "row_obj list" "position \<rightharpoonup> entity" position
  | DisplayStats int int int
  | Destroy

text \<open>
  The controller object: its model, the attributes \<open>char\<close>, \<open>player_position\<close> and
  \<open>moves_remaining\<close> that its methods assign (absent until then), and the events so far.
\<close>

record app =
  model :: engine
  self_char :: "string option"
  self_player_position :: "position option"
  self_moves_remaining :: "int option"
  events :: "event list"

definition emit :: "event list \<Rightarrow> app \<Rightarrow> app" where
  "emit es st = st\<lparr>events := events st @ es\<rparr>"

subsection \<open>The view's display of the maze\<close>

text \<open>
  Iterating over an item of the maze list gives its cells. \<open>FancyGameView.display\<close> and
  \<open>save_game_state\<close> call \<open>get_type\<close> on a cell, which only a tile has: a cell is \<open>Some\<close>
  tile, or \<open>None\<close> for a character of a string and for an item of the list itself.
\<close>

fun cells :: "row_obj list \<Rightarrow> row_obj \<Rightarrow> tile option list" where
  "cells mz (Tiles ts) = map Some ts"
| "cells mz (Str s) = map (\<lambda>c. None) s"
| "cells mz Itself = map (\<lambda>r. None) mz"

text \<open>
  \<open>display\<close> asks every cell of the maze for its type before it draws anything else, and
  so raises \<open>AttributeError\<close> at the first cell that is not a tile.
\<close>

definition display :: "row_obj list \<Rightarrow> error option" where
  "display mz =
     (if list_all (\<lambda>row. list_all (\<lambda>cell. cell \<noteq> None) (cells mz row)) mz then None
      else Some AttributeError)"

subsection \<open>redraw, chosen, handle_keypress\<close>

text \<open>
  A method of the controller gives the exception it ends in, if any, and the state it
  leaves. \<open>redraw\<close> reads the maze, the entities and the player's position and hands them
  to \<open>display_game\<close>, then reads the three statistics and hands them to \<open>display_stats\<close>.
\<close>

definition game_events :: "engine \<Rightarrow> event list" where
  "game_events m =
     [Call GetMaze, Call GetEntities, Call GetPlayerPosition,
      DisplayGame (maze m) (entities m) (player_position m)]"

definition stats_events :: "engine \<Rightarrow> event list" where
  "stats_events m =
     [Call GetPlayerMovesRemaining, Call GetPlayerStrength, Call GetPlayerMoney,
      DisplayStats (player_moves_remaining m) (player_strength m) (player_money m)]"

definition redraw :: "app \<Rightarrow> error option \<times> app" where
  "redraw st =
     (let st1 = emit (game_events (model st)) st in
      case display (maze (model st)) of
        Some e \<Rightarrow> (Some e, st1)
      | None \<Rightarrow> (None, emit (stats_events (model st1)) st1))"

text \<open>
  \<open>chosen(message)\<close>: the dialog, whose answer is an input; on yes the model is reset, the
  view cleared and redrawn; on no the view is cleared, the model reset and the window
  destroyed.
\<close>

definition chosen :: "ops \<Rightarrow> string \<Rightarrow> bool \<Rightarrow> app \<Rightarrow> error option \<times> app" where
  "chosen M message endresponse st =
     (let st1 = emit [AskYesNo message] st in
      if endresponse then
        (let st2 = st1\<lparr>self_player_position := Some (0, 0)\<rparr>;
             st3 = st2\<lparr>self_moves_remaining := Some 10\<rparr>;
             st4 = emit [Call Reset] (st3\<lparr>model := reset M (model st3)\<rparr>);
             st5 = emit [ClearAll] st4
         in redraw st5)
      else
        (let st2 = emit [ClearAll] st1;
             st3 = emit [Call Reset] (st2\<lparr>model := reset M (model st2)\<rparr>)
         in (None, emit [Destroy] st3)))"

text \<open>
  \<open>handle_keypress(event)\<close>, with \<open>event.char\<close> and the answer the user would give to a
  dialog. The second operand of \<open>and\<close> is evaluated only when the first holds.
\<close>

definition handle_keypress :: "ops \<Rightarrow> string \<Rightarrow> bool \<Rightarrow> app \<Rightarrow> error option \<times> app" where
  "handle_keypress M c endresponse st =
     (let st1 = st\<lparr>self_char := Some c\<rparr> in
      if c = ''w'' \<or> c = ''s'' \<or> c = ''a'' \<or> c = ''d'' then
        (let st2 = emit [Call (AttemptMove c)] (st1\<lparr>model := attempt_move M c (model st1)\<rparr>);
             st3 = emit [Call HasWon] st2
         in if has_won M (model st3) then chosen M ''You won! Play again?'' endresponse st3
            else
              (let st4 = emit [Call GetPlayerMovesRemaining] st3 in
               if player_moves_remaining (model st4) = 0 then
                 (let st5 = emit [Call HasWon] st4 in
                  if \<not> has_won M (model st5)
                  then chosen M ''You lose! Play again?'' endresponse st5
                  else redraw st5)
               else redraw st4))
      else (None, st1))"

subsection \<open>The shop\<close>

text \<open>
  \<open>perform_action(item_id)\<close>. In the first branch \<open>get_player()\<close> is called and then the
  argument \<open>STRENGTH_POTION.EFFECT\<close> is evaluated; \<open>STRENGTH_POTION\<close> is the marker string,
  a string has no such attribute, and the statement ends in \<open>AttributeError\<close> before
  \<open>apply_effect\<close> is entered.
\<close>

definition perform_action :: "ops \<Rightarrow> string \<Rightarrow> app \<Rightarrow> error option \<times> app" where
  "perform_action M item_id st =
     (if item_id = ''STRENGTH_POTION'' then (Some AttributeError, emit [Call GetPlayer] st)
      else
        (let st1 = emit [Call (AttemptPurchase item_id)]
                     (st\<lparr>model := attempt_purchase M item_id (model st)\<rparr>)
         in redraw st1))"

text \<open>
  \<open>create_shop_items(shop_items, button_callback)\<close> makes one Buy button for each entry of
  the catalogue: its label, its price, and the item id bound in its callback. The label is
  \<open>None\<close> for a key that is none of the three potion markers.
\<close>

record button =
  item_name :: "string option"
  amount :: int
  current_key :: string

definition create_shop_items :: "support \<Rightarrow> (string \<times> int) list \<Rightarrow> button list" where
  "create_shop_items K shop_items =
     map (\<lambda>(key, val).
            \<lparr>item_name =
               (if key = STRENGTH_POTION K then Some ''Strength Potion''
                else if key = MOVE_POTION K then Some ''Move Potion''
                else if key = FANCY_POTION K then Some ''Fancy Potion''
                else None),
             amount = val,
             current_key = key\<rparr>)
         shop_items"

text \<open>A click on a Buy button calls the controller's \<open>perform_action\<close> with the bound id.\<close>

definition click_buy :: "ops \<Rightarrow> button \<Rightarrow> app \<Rightarrow> error option \<times> app" where
  "click_buy M b st = perform_action M (current_key b) st"

subsection \<open>save_game_state\<close>

text \<open>
  What \<open>save_game_state\<close> writes for the cell in row \<open>i\<close> and column \<open>j\<close>. An entity that is
  neither a crate nor a potion matches no branch and nothing is written for its cell.
\<close>

definition save_cell :: "support \<Rightarrow> engine \<Rightarrow> int \<Rightarrow> int \<Rightarrow> tile option \<Rightarrow> error + string" where
  "save_cell K m i j col =
     (if (i, j) = player_position m then Inr (PLAYER K)
      else
        (case col of
           None \<Rightarrow> Inl AttributeError
         | Some t \<Rightarrow>
             (if tile_get_type K t = WALL K then Inr (WALL K)
              else
                (case entities m (i, j) of
                   Some entity \<Rightarrow>
                     (if get_type K entity = CRATE K
                      then Inr (str_strength (get_strength entity))
                      else if get_type K entity = FANCY_POTION K then Inr (FANCY_POTION K)
                      else if get_type K entity = MOVE_POTION K then Inr (MOVE_POTION K)
                      else if get_type K entity = STRENGTH_POTION K
                      then Inr (STRENGTH_POTION K)
                      else Inr [])
                 | None \<Rightarrow> Inr [CHR 0x20]))))"

text \<open>
  The inner and the outer loop. Each gives the text written and the exception that ended
  it, if any; what was written before an exception stays in the file.
\<close>

fun save_row :: "support \<Rightarrow> engine \<Rightarrow> int \<Rightarrow> int \<Rightarrow> tile option list \<Rightarrow> string \<times> error option" where
  "save_row K m i j [] = ([], None)"
| "save_row K m i j (col # row) =
     (case save_cell K m i j col of
        Inl e \<Rightarrow> ([], Some e)
      | Inr s \<Rightarrow> (case save_row K m i (j + 1) row of (rest, r) \<Rightarrow> (s @ rest, r)))"

fun save_rows :: "support \<Rightarrow> engine \<Rightarrow> int \<Rightarrow> row_obj list \<Rightarrow> string \<times> error option" where
  "save_rows K m i [] = ([], None)"
| "save_rows K m i (row # rows) =
     (case save_row K m i 0 (cells (maze m) row) of
        (s, Some e) \<Rightarrow> (s, Some e)
      | (s, None) \<Rightarrow>
          (case save_rows K m (i + 1) rows of (rest, r) \<Rightarrow> (s @ [NL] @ rest, r)))"

text \<open>
  \<open>save_game_state\<close>, for a path that the dialog gave and that can be written: the text of
  the file and the exception, if any. The accessors it reads the model through change
  nothing and are not recorded.
\<close>

definition save_game_state :: "support \<Rightarrow> engine \<Rightarrow> string \<times> error option" where
  "save_game_state K m =
     (case save_rows K m 0 (maze m) of
        (body, r) \<Rightarrow>
          (py_str (player_strength m) @ [CHR 0x20] @ py_str (player_moves_remaining m) @ [NL]
             @ body, r))"

subsection \<open>load_game_state\<close>

text \<open>
  \<open>CRATE()\<close>, \<open>FANCY_POTION()\<close>, \<open>MOVE_POTION()\<close> and \<open>STRENGTH_POTION()\<close> call a marker.
  The markers are strings and a string is not callable: the call raises \<open>TypeError\<close>.
\<close>

definition call_marker :: "string \<Rightarrow> error + entity" where
  "call_marker s = Inl TypeError"

text \<open>The entity for a character that is neither the player nor a wall, \<open>None\<close> if none.\<close>

definition make_entity :: "support \<Rightarrow> string \<Rightarrow> error + entity option" where
  "make_entity K ch =
     (if ch = CRATE K then map_sum id Some (call_marker (CRATE K))
      else if ch = FANCY_POTION K then map_sum id Some (call_marker (FANCY_POTION K))
      else if ch = MOVE_POTION K then map_sum id Some (call_marker (MOVE_POTION K))
      else if ch = STRENGTH_POTION K then map_sum id Some (call_marker (STRENGTH_POTION K))
      else Inr None)"

text \<open>
  The loop over the characters of one line, from column \<open>j\<close>: the model, the local list
  \<open>row_maze\<close> and the local dictionary \<open>entities\<close> are threaded through, and an exception
  leaves them as they are at that moment.
\<close>

fun load_row ::
  "support \<Rightarrow> int \<Rightarrow> int \<Rightarrow> string \<Rightarrow> engine \<Rightarrow> string list \<Rightarrow> (position \<rightharpoonup> entity)
     \<Rightarrow> error option \<times> engine \<times> string list \<times> (position \<rightharpoonup> entity)" where
  "load_row K i j [] m row_maze ents = (None, m, row_maze, ents)"
| "load_row K i j (c # cs) m row_maze ents =
     (if [c] = PLAYER K
      then load_row K i (j + 1) cs (m\<lparr>player_position := (i, j + 1)\<rparr>) row_maze ents
      else if [c] = WALL K
      then load_row K i (j + 1) cs m (row_maze @ [WALL K]) ents
      else
        (case make_entity K [c] of
           Inl e \<Rightarrow> (Some e, m, row_maze, ents)
         | Inr None \<Rightarrow> load_row K i (j + 1) cs m row_maze ents
         | Inr (Some entity) \<Rightarrow> load_row K i (j + 1) cs m row_maze (ents((i, j) \<mapsto> entity))))"

text \<open>
  The loop over the lines after the first, from row \<open>i\<close>. Every line starts a new
  \<open>row_maze\<close> and a new \<open>entities\<close> and ends with \<open>row_maze.append(row_maze)\<close>; what is left
  after the loop is the \<open>row_maze\<close> of the last line, if there was a line.
\<close>

fun load_rows ::
  "support \<Rightarrow> int \<Rightarrow> string list \<Rightarrow> engine \<Rightarrow> row_obj list option
     \<Rightarrow> error option \<times> engine \<times> row_obj list option" where
  "load_rows K i [] m row_maze = (None, m, row_maze)"
| "load_rows K i (line # lines) m row_maze =
     (case load_row K i 0 (strip line) m [] Map.empty of
        (Some e, m', row, ents) \<Rightarrow> (Some e, m', Some (map Str row))
      | (None, m', row, ents) \<Rightarrow> load_rows K (i + 1) lines m' (Some (map Str row @ [Itself])))"

text \<open>
  \<open>load_game_state\<close>, for a path that the dialog gave and that can be read; \<open>lines\<close> is the
  result of \<open>file.readlines()\<close>.
\<close>

definition load_game_state :: "support \<Rightarrow> string list \<Rightarrow> app \<Rightarrow> error option \<times> app" where
  "load_game_state K lines st =
     (case lines of
        [] \<Rightarrow> (Some IndexError, st)
      | first # rest \<Rightarrow>
          (case those (map py_int (split_space (strip first))) of
             None \<Rightarrow> (Some ValueError, st)
           | Some [] \<Rightarrow> (Some IndexError, st)
           | Some [s] \<Rightarrow> (Some IndexError, st\<lparr>model := (model st)\<lparr>player_strength := s\<rparr>\<rparr>)
           | Some (s # r # _) \<Rightarrow>
               (let m1 = (model st)\<lparr>player_strength := s\<rparr>;
                    m2 = m1\<lparr>player_moves_remaining := r\<rparr>
                in case load_rows K 0 rest m2 None of
                     (Some e, m3, row_maze) \<Rightarrow> (Some e, st\<lparr>model := m3\<rparr>)
                   | (None, m3, None) \<Rightarrow> (Some UnboundLocalError, st\<lparr>model := m3\<rparr>)
                   | (None, m3, Some row_maze) \<Rightarrow>
                       redraw (emit [Call GetEntities] (st\<lparr>model := m3\<lparr>maze := row_maze\<rparr>\<rparr>)))))"

subsection \<open>The engine, from the specification\<close>

text \<open>
  Modelled from the spec: the constants of the engine, which \<open>model.py\<close> would hold: the
  value of a coin, the two increments of the potions (section 4.2), the catalogue from
  potion kind to price (section 3), the direction vector of a key (section 4.1), and the
  state the engine is constructed in, which \<open>reset\<close> restores (section 3).
\<close>

record rules =
  coin_value :: int
  strength_increment :: int
  move_increment :: int
  shop :: "(entity \<times> int) list"
  direction_vector :: "string \<Rightarrow> position option"
  constructed :: engine

text \<open>
  Modelled from the spec: the potion effects of section 4.2. A strength potion adds the
  strength increment, a move potion the move increment, a fancy potion both.
\<close>

fun apply_effect :: "rules \<Rightarrow> entity \<Rightarrow> engine \<Rightarrow> engine" where
  "apply_effect R StrengthPotion m =
     m\<lparr>player_strength := player_strength m + strength_increment R\<rparr>"
| "apply_effect R MovePotion m =
     m\<lparr>player_moves_remaining := player_moves_remaining m + move_increment R\<rparr>"
| "apply_effect R FancyPotion m =
     m\<lparr>player_strength := player_strength m + strength_increment R,
       player_moves_remaining := player_moves_remaining m + move_increment R\<rparr>"
| "apply_effect R e m = m"

text \<open>
  Modelled from the spec: \<open>attempt_purchase\<close> of section 4.2. The item id is looked up in
  the catalogue, whose ids are the markers of its kinds; an unknown id and a price above
  the player's money change nothing; otherwise the price is debited and the effect of the
  potion applied.
\<close>

definition engine_attempt_purchase :: "support \<Rightarrow> rules \<Rightarrow> string \<Rightarrow> engine \<Rightarrow> engine" where
  "engine_attempt_purchase K R item_id m =
     (case find (\<lambda>(kind, price). get_type K kind = item_id) (shop R) of
        None \<Rightarrow> m
      | Some (kind, price) \<Rightarrow>
          (if player_money m < price then m
           else apply_effect R kind (m\<lparr>player_money := player_money m - price\<rparr>)))"

text \<open>
  Modelled from the spec: the tile of a position, \<open>None\<close> out of bounds, and the test of
  steps 2 and 4 of section 4.1 (out of bounds or a wall).
\<close>

definition tile_at :: "row_obj list \<Rightarrow> position \<Rightarrow> tile option" where
  "tile_at mz pos =
     (case pos of (r, c) \<Rightarrow>
        (if 0 \<le> r \<and> r < int (length mz) then
           (case mz ! nat r of
              Tiles ts \<Rightarrow> (if 0 \<le> c \<and> c < int (length ts) then Some (ts ! nat c) else None)
            | Str s \<Rightarrow> None
            | Itself \<Rightarrow> None)
         else None))"

definition blocked :: "row_obj list \<Rightarrow> position \<Rightarrow> bool" where
  "blocked mz pos = (case tile_at mz pos of None \<Rightarrow> True | Some t \<Rightarrow> t = Wall)"

text \<open>
  Modelled from the spec: \<open>attempt_move\<close> of section 4.1. Nothing happens with no move
  left, for a key without a direction, towards a wall or out of bounds, and for a push that
  is blocked or too heavy. Otherwise the player relocates, a crate is pushed one cell, a
  coin or potion on the target is picked up, and one move is consumed.
\<close>

definition engine_attempt_move :: "rules \<Rightarrow> string \<Rightarrow> engine \<Rightarrow> engine" where
  "engine_attempt_move R d m =
     (if player_moves_remaining m = 0 then m
      else
        (case direction_vector R d of
           None \<Rightarrow> m
         | Some (dr, dc) \<Rightarrow>
             (case player_position m of (r, c) \<Rightarrow>
                (let target = (r + dr, c + dc); beyond = (r + 2 * dr, c + 2 * dc) in
                 if blocked (maze m) target then m
                 else
                   (case entities m target of
                      None \<Rightarrow>
                        m\<lparr>player_position := target,
                          player_moves_remaining := player_moves_remaining m - 1\<rparr>
                    | Some (Crate s) \<Rightarrow>
                        (if blocked (maze m) beyond \<or> entities m beyond \<noteq> None then m
                         else if player_strength m < s then m
                         else
                           m\<lparr>entities := (entities m)(target := None, beyond \<mapsto> Crate s),
                             player_position := target,
                             player_moves_remaining := player_moves_remaining m - 1\<rparr>)
                    | Some Coin \<Rightarrow>
                        m\<lparr>entities := (entities m)(target := None),
                          player_position := target,
                          player_money := player_money m + coin_value R,
                          player_moves_remaining := player_moves_remaining m - 1\<rparr>
                    | Some potion \<Rightarrow>
                        (let m1 = apply_effect R potion (m\<lparr>entities := (entities m)(target := None)\<rparr>)
                         in m1\<lparr>player_position := target,
                              player_moves_remaining := player_moves_remaining m1 - 1\<rparr>))))))"

text \<open>
  Modelled from the spec: \<open>has_won\<close> of section 4.3: every goal tile of the maze holds a
  crate.
\<close>

definition goal_positions :: "row_obj list \<Rightarrow> position list" where
  "goal_positions mz =
     concat (map (\<lambda>(i, row).
                    (case row of
                       Tiles ts \<Rightarrow>
                         map (\<lambda>(j, t). (int i, int j))
                             (filter (\<lambda>(j, t). t = Goal) (enumerate 0 ts))
                     | Str s \<Rightarrow> []
                     | Itself \<Rightarrow> []))
                 (enumerate 0 mz))"

definition holds_crate :: "engine \<Rightarrow> position \<Rightarrow> bool" where
  "holds_crate m pos = (case entities m pos of Some (Crate s) \<Rightarrow> True | _ \<Rightarrow> False)"

definition engine_has_won :: "engine \<Rightarrow> bool" where
  "engine_has_won m = list_all (holds_crate m) (goal_positions (maze m))"

text \<open>Modelled from the spec: the engine of sections 4.1 to 4.3 as the controller's model.\<close>

definition engine_ops :: "support \<Rightarrow> rules \<Rightarrow> ops" where
  "engine_ops K R =
     \<lparr>attempt_move = engine_attempt_move R,
      has_won = engine_has_won,
      reset = (\<lambda>m. constructed R),
      attempt_purchase = engine_attempt_purchase K R,
      get_shop_items = map (\<lambda>(kind, price). (get_type K kind, price)) (shop R)\<rparr>"

text \<open>
  Modelled from the spec: every marker is a single character (section 4.4: one character
  per column).
\<close>

definition single_characters :: "support \<Rightarrow> bool" where
  "single_characters K =
     (length (PLAYER K) = 1 \<and> length (WALL K) = 1 \<and> length (CRATE K) = 1
      \<and> length (COIN K) = 1 \<and> length (STRENGTH_POTION K) = 1 \<and> length (MOVE_POTION K) = 1
      \<and> length (FANCY_POTION K) = 1 \<and> length (FLOOR K) = 1 \<and> length (GOAL K) = 1)"

subsection \<open>Reading a trace\<close>

text \<open>The events a method added to those of the state it started in.\<close>

definition added :: "app \<Rightarrow> app \<Rightarrow> event list" where
  "added st st' = drop (length (events st)) (events st')"

text \<open>The events that draw: the two display calls of the view.\<close>

fun draws :: "event \<Rightarrow> bool" where
  "draws (DisplayGame mz ents pos) = True"
| "draws (DisplayStats moves strength money) = True"
| "draws e = False"

text \<open>The messages of the dialogs among some events, in their order.\<close>

fun dialogs :: "event list \<Rightarrow> string list" where
  "dialogs [] = []"
| "dialogs (AskYesNo message # es) = message # dialogs es"
| "dialogs (e # es) = dialogs es"

text \<open>
  The events of one \<open>redraw\<close> of a model: the game view, and the statistics unless the game
  view raised.
\<close>

definition drawn :: "engine \<Rightarrow> event list" where
  "drawn m =
     game_events m @ (case display (maze m) of None \<Rightarrow> stats_events m | Some e \<Rightarrow> [])"

subsection \<open>An instance\<close>

text \<open>
  An instance of the markers: for each kind the letter of the image file that
  \<open>FancyGameView.display\<close> draws for it, the dollar sign that \<open>display\<close> itself gives the
  coin, and a space for the floor.
\<close>

definition letters :: support where
  "letters =
     \<lparr>PLAYER = ''P'', WALL = ''W'', CRATE = ''C'', COIN = ''$'', STRENGTH_POTION = ''S'',
      MOVE_POTION = ''M'', FANCY_POTION = ''F'', FLOOR = [CHR 0x20], GOAL = ''G''\<rparr>"

text \<open>
  A maze of three rows and five columns, walled in: the player at (1, 1), a crate of
  strength 2 at (1, 2), a goal at (1, 3).
\<close>

definition corridor :: engine where
  "corridor =
     \<lparr>maze = [Tiles [Wall, Wall, Wall, Wall, Wall],
              Tiles [Wall, Floor, Floor, Goal, Wall],
              Tiles [Wall, Wall, Wall, Wall, Wall]],
      entities = [(1, 2) \<mapsto> Crate 2],
      player_position = (1, 1),
      player_strength = 2,
      player_moves_remaining = 5,
      player_money = 0\<rparr>"

definition running :: "engine \<Rightarrow> app" where
  "running m =
     \<lparr>model = m, self_char = None, self_player_position = None,
      self_moves_remaining = None, events = []\<rparr>"

definition house_rules :: rules where
  "house_rules =
     \<lparr>coin_value = 1, strength_increment = 2, move_increment = 5,
      shop = [(StrengthPotion, 5), (MovePotion, 5), (FancyPotion, 10)],
      direction_vector =
        map_of [(''w'', (- 1, 0)), (''s'', (1, 0)), (''a'', (0, - 1)), (''d'', (0, 1))],
      constructed = corridor\<rparr>"

text \<open>The same maze without the crate, the player with one move left.\<close>

definition stroll :: engine where
  "stroll = corridor\<lparr>entities := Map.empty, player_moves_remaining := 1\<rparr>"

text \<open>The Buy button that \<open>create_shop_items\<close> makes for the move potion of the instance.\<close>

definition move_button :: button where
  "move_button = \<lparr>item_name = Some ''Move Potion'', amount = 5, current_key = ''M''\<rparr>"


section \<open>Properties\<close>

subsection \<open>Events and the model\<close>

lemma model_emit [simp]: "model (emit es st) = model st"
  by (simp add: emit_def)

lemma events_emit [simp]: "events (emit es st) = events st @ es"
  by (simp add: emit_def)

lemma model_redraw [simp]: "model (snd (redraw st)) = model st"
  by (simp add: redraw_def Let_def split: option.splits)

subsection \<open>What load_game_state leaves alone\<close>

lemma load_row_entities:
  "load_row K i j cs m row ents = (r, m', row', ents') \<Longrightarrow> entities m' = entities m"
proof (induction cs arbitrary: j m row ents)
  case Nil
  then show ?case by simp
next
  case (Cons c cs)
  then show ?case
    by (auto split: if_splits sum.splits option.splits)
qed

lemma load_rows_entities:
  "load_rows K i ls m rm0 = (r, m', rm') \<Longrightarrow> entities m' = entities m"
proof (induction ls arbitrary: i m rm0)
  case Nil
  then show ?case by simp
next
  case (Cons l ls)
  obtain r1 m1 row1 ents1
    where row: "load_row K i 0 (strip l) m [] Map.empty = (r1, m1, row1, ents1)"
    by (metis prod_cases4)
  have e1: "entities m1 = entities m"
    using load_row_entities [OF row] .
  show ?case
  proof (cases r1)
    case None
    with Cons.prems row
    have "load_rows K (i + 1) ls m1 (Some (map Str row1 @ [Itself])) = (r, m', rm')"
      by simp
    from Cons.IH [OF this] e1 show ?thesis by simp
  next
    case (Some e)
    with Cons.prems row have "m' = m1" by simp
    with e1 show ?thesis by simp
  qed
qed

text \<open>
  C9. \<open>load_game_state\<close> never updates the entity registry of the engine: whatever the
  file holds and however the load ends, normally or in an exception, the entity map of the
  model afterwards is the one before. An entity read from the file would go to the
  dictionary local to its line (\<open>ents\<close> of \<open>load_row\<close>), which \<open>load_rows\<close> drops.
\<close>

theorem load_game_state_keeps_entities:
  "entities (model (snd (load_game_state K lines st))) = entities (model st)"
proof (cases lines)
  case Nil
  then show ?thesis by (simp add: load_game_state_def)
next
  case (Cons first rest)
  show ?thesis
  proof (cases "those (map py_int (split_space (strip first)))")
    case None
    with Cons show ?thesis by (simp add: load_game_state_def)
  next
    case (Some stats)
    show ?thesis
    proof (cases stats)
      case Nil
      with Cons Some show ?thesis by (simp add: load_game_state_def)
    next
      case c1: (Cons s more1)
      show ?thesis
      proof (cases more1)
        case Nil
        with Cons Some c1 show ?thesis by (simp add: load_game_state_def)
      next
        case c2: (Cons r more2)
        obtain e m3 rm where rows:
          "load_rows K 0 rest ((model st)\<lparr>player_strength := s, player_moves_remaining := r\<rparr>)
             None = (e, m3, rm)"
          by (metis prod_cases3)
        have "entities m3 = entities (model st)"
          using load_rows_entities [OF rows] by simp
        with Cons Some c1 c2 rows show ?thesis
          by (cases e; cases rm) (simp_all add: load_game_state_def)
      qed
    qed
  qed
qed

subsection \<open>The events of a keypress\<close>

lemma added_append: "events st' = events st @ es \<Longrightarrow> added st st' = es"
  by (simp add: added_def)

lemma events_redraw: "events (snd (redraw st)) = events st @ drawn (model st)"
  by (simp add: redraw_def drawn_def Let_def split: option.splits)

lemma events_chosen:
  "events (snd (chosen M message answer st)) =
     events st @ AskYesNo message #
       (if answer then [Call Reset, ClearAll] @ drawn (reset M (model st))
        else [ClearAll, Call Reset, Destroy])"
  by (simp add: chosen_def Let_def events_redraw)

lemma model_chosen [simp]: "model (snd (chosen M message answer st)) = reset M (model st)"
  by (simp add: chosen_def Let_def)

lemma dialogs_append: "dialogs (xs @ ys) = dialogs xs @ dialogs ys"
  by (induction xs rule: dialogs.induct) simp_all

lemma dialogs_drawn: "dialogs (drawn m) = []"
  by (simp add: drawn_def game_events_def stats_events_def split: option.splits)

lemma events_handle_keypress:
  assumes "c = ''w'' \<or> c = ''s'' \<or> c = ''a'' \<or> c = ''d''"
  shows "events (snd (handle_keypress M c answer st)) =
     events st @ [Call (AttemptMove c), Call HasWon] @
       (let m' = attempt_move M c (model st) in
        if has_won M m'
        then AskYesNo ''You won! Play again?'' #
               (if answer then [Call Reset, ClearAll] @ drawn (reset M m')
                else [ClearAll, Call Reset, Destroy])
        else if player_moves_remaining m' = 0
        then [Call GetPlayerMovesRemaining, Call HasWon] @
               AskYesNo ''You lose! Play again?'' #
               (if answer then [Call Reset, ClearAll] @ drawn (reset M m')
                else [ClearAll, Call Reset, Destroy])
        else Call GetPlayerMovesRemaining # drawn m')"
  using assms by (auto simp add: handle_keypress_def Let_def events_chosen events_redraw)

lemma model_handle_keypress:
  assumes "c = ''w'' \<or> c = ''s'' \<or> c = ''a'' \<or> c = ''d''"
  shows "model (snd (handle_keypress M c answer st)) =
     (let m' = attempt_move M c (model st) in
      if has_won M m' \<or> player_moves_remaining m' = 0 then reset M m' else m')"
  using assms by (auto simp add: handle_keypress_def Let_def)

text \<open>
  Moves of the engine on the instance: a step that uses the last move, a push that puts
  the crate on the goal, and a step into a wall.
\<close>

lemma stroll_step:
  "attempt_move (engine_ops letters house_rules) ''d'' stroll =
     stroll\<lparr>player_position := (1, 2), player_moves_remaining := 0\<rparr>"
  by (simp add: engine_ops_def engine_attempt_move_def stroll_def corridor_def house_rules_def
      blocked_def tile_at_def)

lemma stroll_not_won:
  "\<not> has_won (engine_ops letters house_rules)
       (stroll\<lparr>player_position := (1, 2), player_moves_remaining := 0\<rparr>)"
  by (simp add: engine_ops_def engine_has_won_def goal_positions_def stroll_def corridor_def
      holds_crate_def enumerate_eq_zip)

lemma corridor_step:
  "attempt_move (engine_ops letters house_rules) ''d'' corridor =
     corridor\<lparr>entities := [(1, 3) \<mapsto> Crate 2], player_position := (1, 2),
       player_moves_remaining := 4\<rparr>"
  by (simp add: engine_ops_def engine_attempt_move_def corridor_def house_rules_def
      blocked_def tile_at_def)

lemma corridor_won:
  "has_won (engine_ops letters house_rules)
     (corridor\<lparr>entities := [(1, 3) \<mapsto> Crate 2], player_position := (1, 2),
        player_moves_remaining := 4\<rparr>)"
  by (simp add: engine_ops_def engine_has_won_def goal_positions_def corridor_def
      holds_crate_def enumerate_eq_zip)



text \<open>
  C5. After the \<open>attempt_move\<close> of a movement key, the shell reports a loss, the dialog
  \<open>You lose! Play again?\<close>, if and only if \<open>moves_remaining\<close> is 0 and \<open>has_won\<close> is false
  in the state the move left, for every model.
\<close>

theorem loss_reported_iff:
  assumes "c = ''w'' \<or> c = ''s'' \<or> c = ''a'' \<or> c = ''d''"
  shows "''You lose! Play again?''
         \<in> set (dialogs (added st (snd (handle_keypress M c answer st))))
     \<longleftrightarrow> player_moves_remaining (attempt_move M c (model st)) = 0
           \<and> \<not> has_won M (attempt_move M c (model st))"
  by (simp add: added_append [OF events_handle_keypress [OF assms]] Let_def dialogs_append
      dialogs_drawn)

theorem loss_reported_iff_witness:
  "''You lose! Play again?'' \<in> set (dialogs (added (running stroll)
      (snd (handle_keypress (engine_ops letters house_rules) ''d'' True (running stroll)))))"
  using loss_reported_iff [of "''d''" "running stroll" "engine_ops letters house_rules" True]
  by (simp add: running_def stroll_step stroll_not_won)

text \<open>
  C8. A keypress whose character is none of w, s, a and d calls no method of the model,
  leaves the model as it is and adds no event, so the view is neither changed nor redrawn;
  the controller only stores the character in its attribute \<open>char\<close>.
\<close>

theorem other_keys_do_nothing:
  assumes "c \<noteq> ''w''" and "c \<noteq> ''s''" and "c \<noteq> ''a''" and "c \<noteq> ''d''"
  shows "handle_keypress M c answer st = (None, st\<lparr>self_char := Some c\<rparr>)
     \<and> model (snd (handle_keypress M c answer st)) = model st
     \<and> added st (snd (handle_keypress M c answer st)) = []"
  using assms by (simp add: handle_keypress_def added_def)

theorem other_keys_do_nothing_witness:
  "handle_keypress (engine_ops letters house_rules) ''x'' True (running corridor) =
     (None, (running corridor)\<lparr>self_char := Some ''x''\<rparr>)
   \<and> model (snd (handle_keypress (engine_ops letters house_rules) ''x'' True (running corridor)))
       = corridor
   \<and> added (running corridor)
        (snd (handle_keypress (engine_ops letters house_rules) ''x'' True (running corridor))) = []"
  using other_keys_do_nothing
    [where c = "''x''" and M = "engine_ops letters house_rules" and answer = True
       and st = "running corridor"]
  by (simp add: running_def added_def)

text \<open>
  C10. When the move of a movement key ends in a win or in a loss, \<open>handle_keypress\<close>
  shows the dialog before any display call; after it the view is drawn only when the
  answer is yes, after the reset of the model and with the values of the reset model; on
  no the view is cleared, the model reset and the window destroyed, and nothing is drawn.
\<close>

theorem outcome_dialog_before_redraw:
  assumes "c = ''w'' \<or> c = ''s'' \<or> c = ''a'' \<or> c = ''d''"
    and "m' = attempt_move M c (model st)"
    and "has_won M m' \<or> player_moves_remaining m' = 0"
  shows "added st (snd (handle_keypress M c answer st)) =
       [Call (AttemptMove c), Call HasWon]
       @ (if has_won M m' then [AskYesNo ''You won! Play again?'']
          else [Call GetPlayerMovesRemaining, Call HasWon, AskYesNo ''You lose! Play again?''])
       @ (if answer then [Call Reset, ClearAll] @ drawn (reset M m')
          else [ClearAll, Call Reset, Destroy])
     \<and> model (snd (handle_keypress M c answer st)) = reset M m'"
  using assms(2,3)
  by (auto simp add: added_append [OF events_handle_keypress [OF assms(1)]]
      model_handle_keypress [OF assms(1)] Let_def)

theorem outcome_dialog_before_redraw_witness:
  "added (running corridor)
     (snd (handle_keypress (engine_ops letters house_rules) ''d'' True (running corridor))) =
     [Call (AttemptMove ''d''), Call HasWon, AskYesNo ''You won! Play again?'',
      Call Reset, ClearAll] @ drawn corridor
   \<and> added (running corridor)
     (snd (handle_keypress (engine_ops letters house_rules) ''d'' False (running corridor))) =
     [Call (AttemptMove ''d''), Call HasWon, AskYesNo ''You won! Play again?'',
      ClearAll, Call Reset, Destroy]
   \<and> added (running stroll)
     (snd (handle_keypress (engine_ops letters house_rules) ''d'' True (running stroll))) =
     [Call (AttemptMove ''d''), Call HasWon, Call GetPlayerMovesRemaining, Call HasWon,
      AskYesNo ''You lose! Play again?'', Call Reset, ClearAll] @ drawn corridor"
  using outcome_dialog_before_redraw
      [where c = "''d''" and M = "engine_ops letters house_rules" and st = "running corridor"
         and answer = True, OF _ refl]
    outcome_dialog_before_redraw
      [where c = "''d''" and M = "engine_ops letters house_rules" and st = "running corridor"
         and answer = False, OF _ refl]
    outcome_dialog_before_redraw
      [where c = "''d''" and M = "engine_ops letters house_rules" and st = "running stroll"
         and answer = True, OF _ refl]
    corridor_won stroll_not_won
  by (simp add: running_def corridor_step stroll_step) (simp add: engine_ops_def house_rules_def)

lemma maze_apply_effect [simp]: "maze (apply_effect R kind m) = maze m"
  by (cases kind) simp_all







subsection \<open>The shop\<close>

lemma apply_effect_money [simp]: "player_money (apply_effect R kind m) = player_money m"
  by (cases kind) simp_all

lemma find_distinct_key:
  assumes "distinct (map f xs)" and "x \<in> set xs"
  shows "find (\<lambda>y. f y = f x) xs = Some x"
  using assms
proof (induction xs)
  case Nil
  then show ?case by simp
next
  case (Cons a xs)
  then show ?case by (auto simp: image_iff)
qed

lemma engine_purchase_money:
  assumes "distinct (map (\<lambda>(kind, price). get_type K kind) (shop R))"
    and "(kind, price) \<in> set (shop R)"
  shows "player_money (engine_attempt_purchase K R (get_type K kind) m) =
     (if price \<le> player_money m then player_money m - price else player_money m)"
proof -
  have "find (\<lambda>y. (\<lambda>(kind, price). get_type K kind) y = (\<lambda>(kind, price). get_type K kind) (kind, price)) (shop R)
      = Some (kind, price)"
    using find_distinct_key [OF assms] .
  then have "find (\<lambda>(k, p). get_type K k = get_type K kind) (shop R) = Some (kind, price)"
    by (simp add: case_prod_unfold)
  then show ?thesis
    by (simp add: engine_attempt_purchase_def)
qed

lemma single_not_literal:
  assumes "single_characters K"
  shows "get_type K kind \<noteq> ''STRENGTH_POTION''"
proof
  assume "get_type K kind = ''STRENGTH_POTION''"
  then have "length (get_type K kind) = 15" by simp
  with assms show False
    by (cases kind) (simp_all add: single_characters_def)
qed

lemma create_shop_items_keys:
  "map (\<lambda>b. (current_key b, amount b)) (create_shop_items K items) = items"
  by (induction items) (auto simp add: create_shop_items_def)

lemma length_create_shop_items [simp]:
  "length (create_shop_items K items) = length items"
  by (simp add: create_shop_items_def)

lemma create_shop_items_nth:
  assumes "i < length items" and "items ! i = (item_id, price)"
  shows "current_key (create_shop_items K items ! i) = item_id
     \<and> amount (create_shop_items K items ! i) = price"
  using assms by (simp add: create_shop_items_def)

text \<open>
  C6. \<open>create_shop_items\<close> makes exactly one Buy button for every item of the catalogue,
  bound to the item's id and showing its price. A click on the button of an item, whose id
  is the single-character marker of its kind, calls \<open>attempt_purchase\<close> with that id and
  redraws; with the \<open>attempt_purchase\<close> of the specification the money goes down by the
  catalogue price when it is affordable and stays as it is otherwise. No call of
  \<open>perform_action\<close> changes the model except through \<open>attempt_purchase\<close>: for the literal id
  \<open>STRENGTH_POTION\<close> it raises before any effect is applied.
\<close>

theorem buy_button_purchases:
  assumes "single_characters K"
    and "M = engine_ops K R"
    and "distinct (map fst (get_shop_items M))"
    and "i < length (get_shop_items M)"
    and "get_shop_items M ! i = (item_id, price)"
    and "b = create_shop_items K (get_shop_items M) ! i"
    and "money = player_money (model st)"
  shows "map (\<lambda>b. (current_key b, amount b)) (create_shop_items K (get_shop_items M))
       = get_shop_items M
     \<and> current_key b = item_id
     \<and> amount b = price
     \<and> added st (snd (click_buy M b st)) =
         Call (AttemptPurchase item_id) # drawn (attempt_purchase M item_id (model st))
     \<and> model (snd (click_buy M b st)) = attempt_purchase M item_id (model st)
     \<and> player_money (model (snd (click_buy M b st))) =
         (if price \<le> money then money - price else money)
     \<and> model (snd (perform_action M any_id st)) =
         (if any_id = ''STRENGTH_POTION'' then model st
          else attempt_purchase M any_id (model st))"
proof -
  have key: "current_key b = item_id" and am: "amount b = price"
    using create_shop_items_nth [OF assms(4,5)] assms(6) by simp_all
  from assms(2,4,5) obtain kind
    where kp: "(kind, price) \<in> set (shop R)" and id: "item_id = get_type K kind"
    by (auto simp add: engine_ops_def in_set_conv_nth case_prod_unfold)
       (metis nth_mem prod.collapse)
  have lit: "item_id \<noteq> ''STRENGTH_POTION''"
    using single_not_literal [OF assms(1)] id by simp
  have dist: "distinct (map (\<lambda>(kind, price). get_type K kind) (shop R))"
    using assms(2,3) by (simp add: engine_ops_def comp_def case_prod_unfold)
  have ev: "events (snd (click_buy M b st)) =
      events st @ Call (AttemptPurchase item_id) #
        drawn (attempt_purchase M item_id (model st))"
    using lit key by (simp add: click_buy_def perform_action_def Let_def events_redraw)
  have md: "model (snd (click_buy M b st)) = attempt_purchase M item_id (model st)"
    using lit key by (simp add: click_buy_def perform_action_def Let_def)
  have mo: "player_money (attempt_purchase M item_id (model st)) =
      (if price \<le> money then money - price else money)"
    using engine_purchase_money [OF dist kp] assms(2,7) id
    by (simp add: engine_ops_def)
  have any: "model (snd (perform_action M any_id st)) =
      (if any_id = ''STRENGTH_POTION'' then model st
       else attempt_purchase M any_id (model st))"
    by (simp add: perform_action_def Let_def)
  from key am md mo any added_append [OF ev] create_shop_items_keys [of K "get_shop_items M"]
  show ?thesis by simp
qed

theorem buy_button_purchases_witness:
  "create_shop_items letters (get_shop_items (engine_ops letters house_rules)) ! 1 = move_button
   \<and> player_money (model (snd (click_buy (engine_ops letters house_rules) move_button
      (running (corridor\<lparr>player_money := 7\<rparr>))))) = 2
   \<and> player_money (model (snd (click_buy (engine_ops letters house_rules) move_button
      (running (corridor\<lparr>player_money := 3\<rparr>))))) = 3"
proof -
  have s: "single_characters letters"
    by (simp add: single_characters_def letters_def)
  have d: "distinct (map fst (get_shop_items (engine_ops letters house_rules)))"
    by (simp add: engine_ops_def house_rules_def letters_def)
  have i: "1 < length (get_shop_items (engine_ops letters house_rules))"
    by (simp add: engine_ops_def house_rules_def)
  have n: "get_shop_items (engine_ops letters house_rules) ! 1 = (''M'', 5)"
    by (simp add: engine_ops_def house_rules_def letters_def)
  have b: "move_button =
      create_shop_items letters (get_shop_items (engine_ops letters house_rules)) ! 1"
    by (simp add: create_shop_items_def engine_ops_def house_rules_def letters_def
        move_button_def)
  note rich = buy_button_purchases [OF s refl d i n b refl,
      where st = "running (corridor\<lparr>player_money := 7\<rparr>)",
      THEN conjunct2, THEN conjunct2, THEN conjunct2, THEN conjunct2, THEN conjunct2,
      THEN conjunct1]
  note poor = buy_button_purchases [OF s refl d i n b refl,
      where st = "running (corridor\<lparr>player_money := 3\<rparr>)",
      THEN conjunct2, THEN conjunct2, THEN conjunct2, THEN conjunct2, THEN conjunct2,
      THEN conjunct1]
  from rich poor b show ?thesis
    by (simp add: running_def)
qed

subsection \<open>Saved files\<close>

text \<open>The definitions that the evaluation of \<open>save_game_state\<close> and \<open>load_game_state\<close> on
  the instance unfolds.\<close>

lemmas eval_defs =
  letters_def running_def corridor_def stroll_def NL_def
  save_game_state_def save_cell_def py_str_def str_nat.simps digit_char_def
  load_game_state_def strip_def is_space_def py_int_def int_space_def int_unsigned_def
  max_str_digits_def digit_val_def
  make_entity_def call_marker_def redraw_def display_def emit_def Let_def

lemma save_corridor:
  "save_game_state letters corridor =
     (''2 5'' @ [NL] @ ''WWWWW'' @ [NL] @ ''WP2 W'' @ [NL] @ ''WWWWW'' @ [NL], None)"
  by (simp add: eval_defs)

lemma readlines_corridor:
  "readlines (''2 5'' @ [NL] @ ''WWWWW'' @ [NL] @ ''WP2 W'' @ [NL] @ ''WWWWW'' @ [NL]) =
     [''2 5'' @ [NL], ''WWWWW'' @ [NL], ''WP2 W'' @ [NL], ''WWWWW'' @ [NL]]"
  by (simp add: NL_def)

lemma those_None_iff: "those (map f xs) = None \<longleftrightarrow> (\<exists>x \<in> set xs. f x = None)"
  by (induction xs) (auto split: option.splits)

lemma make_entity_error: "make_entity K ch = Inl e \<Longrightarrow> e = TypeError"
  by (auto simp add: make_entity_def call_marker_def split: if_splits)

lemma load_row_frame:
  "load_row K i j cs m row ents = (r, m', row', ents') \<Longrightarrow>
     player_strength m' = player_strength m \<and> (r = None \<or> r = Some TypeError)"
proof (induction cs arbitrary: j m row ents)
  case Nil
  then show ?case by simp
next
  case (Cons c cs)
  then show ?case
    by (auto split: if_splits sum.splits option.splits dest: make_entity_error)
qed

lemma load_rows_frame:
  "load_rows K i ls m rm0 = (r, m', rm') \<Longrightarrow>
     player_strength m' = player_strength m \<and> (r = None \<or> r = Some TypeError)"
proof (induction ls arbitrary: i m rm0)
  case Nil
  then show ?case by simp
next
  case (Cons l ls)
  obtain r1 m1 row1 ents1
    where row: "load_row K i 0 (strip l) m [] Map.empty = (r1, m1, row1, ents1)"
    by (metis prod_cases4)
  note f1 = load_row_frame [OF row]
  show ?case
  proof (cases r1)
    case None
    with Cons.prems row
    have "load_rows K (i + 1) ls m1 (Some (map Str row1 @ [Itself])) = (r, m', rm')"
      by simp
    from Cons.IH [OF this] f1 show ?thesis by simp
  next
    case (Some e)
    with Cons.prems row have "m' = m1" and "r = r1" by simp_all
    with f1 show ?thesis by simp
  qed
qed

lemma redraw_error: "fst (redraw st) = None \<or> fst (redraw st) = Some AttributeError"
  by (simp add: redraw_def display_def Let_def)

text \<open>
  C3, as amended. \<open>load_game_state\<close> never raises \<open>CorruptSaveError\<close> and does not validate
  the rows. A file with no line raises \<open>IndexError\<close> and a first line with a token that is
  not an integer raises \<open>ValueError\<close>, both before anything is assigned: in these two cases
  the controller and its model are left as they were. In every other case
  \<open>player_strength\<close> is assigned from the first number of line 1 before the rest of the file
  is looked at, whatever the rows hold and however the load ends.
\<close>

theorem load_game_state_header_errors:
  "fst (load_game_state K lines st) \<noteq> Some CorruptSaveError
   \<and> (lines = [] \<longrightarrow> load_game_state K lines st = (Some IndexError, st))
   \<and> (lines \<noteq> [] \<and> (\<exists>tok \<in> set (split_space (strip (hd lines))). py_int tok = None) \<longrightarrow>
        load_game_state K lines st = (Some ValueError, st))
   \<and> (lines \<noteq> [] \<and> those (map py_int (split_space (strip (hd lines)))) = Some (s # numbers) \<longrightarrow>
        player_strength (model (snd (load_game_state K lines st))) = s)"
proof (cases lines)
  case Nil
  then show ?thesis by (simp add: load_game_state_def)
next
  case (Cons first rest)
  show ?thesis
  proof (cases "those (map py_int (split_space (strip first)))")
    case None
    with Cons show ?thesis by (simp add: load_game_state_def)
  next
    case (Some stats)
    then have ok: "\<not> (\<exists>tok \<in> set (split_space (strip first)). py_int tok = None)"
      using those_None_iff [of py_int "split_space (strip first)"] by simp
    show ?thesis
    proof (cases stats)
      case Nil
      with Cons Some ok show ?thesis by (simp add: load_game_state_def)
    next
      case c1: (Cons s1 more1)
      show ?thesis
      proof (cases more1)
        case Nil
        with Cons Some c1 ok show ?thesis by (simp add: load_game_state_def)
      next
        case c2: (Cons r more2)
        obtain e m3 rm where rows:
          "load_rows K 0 rest ((model st)\<lparr>player_strength := s1, player_moves_remaining := r\<rparr>)
             None = (e, m3, rm)"
          by (metis prod_cases3)
        note f = load_rows_frame [OF rows]
        have err: "fst (load_game_state K lines st) \<noteq> Some CorruptSaveError"
          using Cons Some c1 c2 rows f
            redraw_error [of "emit [Call GetEntities] (st\<lparr>model := m3\<lparr>maze := the rm\<rparr>\<rparr>)"]
          by (cases e; cases rm) (auto simp add: load_game_state_def)
        have str: "player_strength (model (snd (load_game_state K lines st))) = s1"
          using Cons Some c1 c2 rows f
          by (cases e; cases rm) (auto simp add: load_game_state_def)
        have hd: "hd lines = first" and ne: "lines \<noteq> []"
          using Cons by simp_all
        have val: "\<not> (\<exists>tok \<in> set (split_space (strip (hd lines))). py_int tok = None)"
          using ok hd by simp
        have s: "those (map py_int (split_space (strip (hd lines)))) = Some (s # numbers)
            \<longrightarrow> s = s1"
          using Some c1 hd by simp
        from err str ne val s show ?thesis by blast
      qed
    qed
  qed
qed

lemma py_int_x: "py_int ''x'' = None"
  by (simp add: py_int_def int_space_def int_unsigned_def digit_val_def)

theorem load_game_state_header_errors_witness:
  "load_game_state letters [''1 x'' @ [NL]] (running corridor) = (Some ValueError, running corridor)
   \<and> load_game_state letters [] (running corridor) = (Some IndexError, running corridor)
   \<and> player_strength (model (snd (load_game_state letters [''7'' @ [NL]] (running corridor)))) = 7"
proof -
  have "''x'' \<in> set (split_space (strip (hd [''1 x'' @ [NL]])))"
    by (simp add: strip_def is_space_def NL_def)
  with py_int_x
  have "\<exists>tok \<in> set (split_space (strip (hd [''1 x'' @ [NL]]))). py_int tok = None"
    by blast
  with load_game_state_header_errors [of letters "[''1 x'' @ [NL]]" "running corridor"]
  have a: "load_game_state letters [''1 x'' @ [NL]] (running corridor) =
      (Some ValueError, running corridor)"
    by simp
  from load_game_state_header_errors [of letters "[]" "running corridor"]
  have b: "load_game_state letters [] (running corridor) = (Some IndexError, running corridor)"
    by simp
  have "those (map py_int (split_space (strip (hd [''7'' @ [NL]])))) = Some (7 # [])"
    by (simp add: strip_def is_space_def NL_def py_int_def int_space_def int_unsigned_def
        max_str_digits_def digit_val_def)
  with load_game_state_header_errors [of letters "[''7'' @ [NL]]" "running corridor" 7 "[]"]
  have c: "player_strength (model (snd (load_game_state letters [''7'' @ [NL]]
      (running corridor)))) = 7"
    by simp
  from a b c show ?thesis by simp
qed

text \<open>
  The claim C3 as stated fails: a file with an unknown character and rows of different
  lengths is not rejected with \<open>CorruptSaveError\<close>, and the model is changed.
\<close>

theorem load_game_state_counterexample:
  "fst (load_game_state letters [''7 9'' @ [NL], ''W?W'' @ [NL], ''W'' @ [NL]] (running corridor))
     \<noteq> Some CorruptSaveError
   \<and> model (snd (load_game_state letters [''7 9'' @ [NL], ''W?W'' @ [NL], ''W'' @ [NL]]
        (running corridor))) \<noteq> model (running corridor)
   \<and> fst (load_game_state letters [''7 9'' @ [NL], ''W?W'' @ [NL], ''W'' @ [NL]] (running corridor))
     = Some AttributeError
   \<and> player_strength (model (snd (load_game_state letters
        [''7 9'' @ [NL], ''W?W'' @ [NL], ''W'' @ [NL]] (running corridor)))) = 7"
proof -
  let ?r = "load_game_state letters [''7 9'' @ [NL], ''W?W'' @ [NL], ''W'' @ [NL]]
    (running corridor)"
  have a: "fst ?r = Some AttributeError"
    by (simp add: eval_defs)
  have b: "player_strength (model (snd ?r)) = 7"
    by (simp add: eval_defs)
  have "player_strength (model (running corridor)) = 2"
    by (simp add: running_def corridor_def)
  with b have c: "model (snd ?r) \<noteq> model (running corridor)"
    by auto
  from a b c show ?thesis by simp
qed

text \<open>
  C1. Saving the instance and loading the saved file does not give the state back: the
  player, saved at (1, 1), is put at (1, 2), the maze becomes the list of the wall markers
  of the last line followed by itself, and the redraw that ends the load raises.
\<close>

theorem saved_game_loads_elsewhere:
  "fst (load_game_state letters (readlines (fst (save_game_state letters corridor)))
          (running corridor)) = Some AttributeError
   \<and> player_position (model (snd (load_game_state letters
          (readlines (fst (save_game_state letters corridor))) (running corridor)))) = (1, 2)
   \<and> player_position corridor = (1, 1)
   \<and> maze (model (snd (load_game_state letters
          (readlines (fst (save_game_state letters corridor))) (running corridor)))) =
       [Str ''W'', Str ''W'', Str ''W'', Str ''W'', Str ''W'', Itself]"
  unfolding save_corridor fst_conv readlines_corridor
  by (simp add: eval_defs)

text \<open>
  C2. \<open>save_game_state\<close> writes nothing for a cell that holds a coin, so that the row has
  four characters for five columns, and two characters for a crate of strength 12.
\<close>

theorem save_game_state_skips_coin:
  "save_game_state letters (corridor\<lparr>entities := [(1, 2) \<mapsto> Crate 2, (1, 3) \<mapsto> Coin]\<rparr>) =
     (''2 5'' @ [NL] @ ''WWWWW'' @ [NL] @ ''WP2W'' @ [NL] @ ''WWWWW'' @ [NL], None)
   \<and> save_game_state letters (corridor\<lparr>entities := [(1, 2) \<mapsto> Crate 12]\<rparr>) =
     (''2 5'' @ [NL] @ ''WWWWW'' @ [NL] @ ''WP12 W'' @ [NL] @ ''WWWWW'' @ [NL], None)"
  by (simp add: eval_defs)

text \<open>
  C4. Decoding a well-formed file: a potion marker makes \<open>load_game_state\<close> raise
  \<open>TypeError\<close>, after the statistics and a player position one column to the right of the
  marker have been stored; a crate digit gives no entity; the maze stored is not the wall
  layout of the file.
\<close>

theorem load_game_state_decodes_wrongly:
  "load_game_state letters
      [''2 5'' @ [NL], ''WWWWW'' @ [NL], ''WPF W'' @ [NL], ''WWWWW'' @ [NL]] (running stroll) =
     (Some TypeError,
      running (stroll\<lparr>player_position := (1, 2), player_strength := 2,
                     player_moves_remaining := 5\<rparr>))
   \<and> entities (model (snd (load_game_state letters
      [''2 5'' @ [NL], ''WWWWW'' @ [NL], ''WP2 W'' @ [NL], ''WWWWW'' @ [NL]] (running stroll))))
       = Map.empty
   \<and> maze (model (snd (load_game_state letters
      [''2 5'' @ [NL], ''WWWWW'' @ [NL], ''WP2 W'' @ [NL], ''WWWWW'' @ [NL]] (running stroll))))
       = [Str ''W'', Str ''W'', Str ''W'', Str ''W'', Str ''W'', Itself]
   \<and> player_position (model (snd (load_game_state letters
      [''2 5'' @ [NL], ''WWWWW'' @ [NL], ''WP2 W'' @ [NL], ''WWWWW'' @ [NL]] (running stroll))))
       = (1, 2)"
  by (simp add: eval_defs)

end
